theory Spec2Isabelle
  imports Complex_Main "HOL-Library.AList" "HOL-Library.Log_Nat"
begin

section \<open>Bank Nifty dashboard: the fetch, normalise and filter pipeline\<close>

text \<open>
  The development embeds \<^verbatim>\<open>bank_nifty_dashboard.py\<close>: the ticker directory, the loop of
  \<^verbatim>\<open>fetch_data\<close> that turns one provider response per symbol into one row, the
  construction of the data frame, and the module-level statements that restrict the
  directory to the selected companies and filter the frame by ROE and P/E.

  Numbers. The provider delivers Python ints and floats. A number is represented by its
  exact rational value: an int by itself, a float by the value of the double. The
  products with 0.95 and 1.05 and the quotient by 1e7 have a float operand: Python
  converts the other operand to a double and rounds the exact result to the nearest
  double, ties to even. \<open>to_double\<close> is that rounding, and \<^verbatim>\<open>round(x, 2)\<close> on a float is
  the double nearest to the two-decimal number nearest to \<open>x\<close>. The product of the
  return on equity with the int 100 is such a float product when the return on equity is
  a float; for an int Python multiplies exactly, which gives the same value as long as
  the product has at most 53 bits. Comparisons are exact in Python, also between an int
  and a float. Outside the model are magnitudes of \<open>2 ^ 1024\<close> and more, where Python
  raises \<^verbatim>\<open>OverflowError\<close> or yields an infinity, and a return on equity that is an int
  whose product with 100 has more than 53 bits.

  Missing values. \<^verbatim>\<open>info.get("trailingPE", None)\<close> yields \<^verbatim>\<open>None\<close> for an absent key.
  In the data frame such a cell is a missing value (\<^verbatim>\<open>NaN\<close> in a float column,
  \<^verbatim>\<open>None\<close> in an object column); both are the cell \<open>None\<close> here, and every ordering
  comparison of a missing cell with a number is false, as in pandas.
\<close>

subsection \<open>Errors\<close>

datatype error =
    KeyError string          \<comment> \<open>a dictionary or a data frame has no such key\<close>
  | ProviderError string     \<comment> \<open>an exception raised inside \<^verbatim>\<open>yf.Ticker(symbol).info\<close>\<close>

subsection \<open>The ticker directory\<close>

text \<open>A Python dict keeps insertion order: an association list with distinct keys.\<close>

type_synonym tickers = "(string \<times> string) list"

definition bank_nifty_tickers :: tickers where
  "bank_nifty_tickers =
    [(''HDFC Bank'', ''HDFCBANK.NS''),
     (''ICICI Bank'', ''ICICIBANK.NS''),
     (''Axis Bank'', ''AXISBANK.NS''),
     (''Kotak Mahindra Bank'', ''KOTAKBANK.NS''),
     (''State Bank of India'', ''SBIN.NS''),
     (''IndusInd Bank'', ''INDUSINDBK.NS''),
     (''Bank of Baroda'', ''BANKBARODA.NS''),
     (''Punjab National Bank'', ''PNB.NS''),
     (''Canara Bank'', ''CANBK.NS''),
     (''Federal Bank'', ''FEDERALBNK.NS''),
     (''IDFC First Bank'', ''IDFCFIRSTB.NS''),
     (''AU Small Finance Bank'', ''AUBANK.NS'')]"

subsection \<open>Provider responses\<close>

text \<open>
  \<^verbatim>\<open>stock.info\<close> is a dict from field names to numbers. The provider is an external
  service: a call may depend on and change a state of the outside world, and it may
  raise. \<^verbatim>\<open>fetch_data\<close> has no handler, so a raised error leaves the function.
\<close>

type_synonym info = "string \<rightharpoonup> rat"

type_synonym 's provider = "string \<Rightarrow> 's \<Rightarrow> (error + info) \<times> 's"

definition get_default :: "info \<Rightarrow> string \<Rightarrow> rat \<Rightarrow> rat" where
  \<comment> \<open>\<^verbatim>\<open>info.get(key, default)\<close>\<close>
  "get_default info k d = (case info k of None \<Rightarrow> d | Some v \<Rightarrow> v)"

subsection \<open>Double-precision arithmetic\<close>

definition round_half_even :: "rat \<Rightarrow> int" where
  "round_half_even x =
     (let f = \<lfloor>x\<rfloor>; d = x - of_int f
      in if d < 1 / 2 then f
         else if 1 / 2 < d then f + 1
         else if even f then f else f + 1)"

definition exponent :: "rat \<Rightarrow> int" where
  \<comment> \<open>the \<open>e\<close> with \<open>2 ^ e \<le> \<bar>x\<bar> < 2 ^ (e + 1)\<close>, for \<open>x \<noteq> 0\<close>\<close>
  "exponent x =
     (if 1 \<le> \<bar>x\<bar> then bitlen \<lfloor>\<bar>x\<bar>\<rfloor> - 1 else - bitlen (\<lceil>1 / \<bar>x\<bar>\<rceil> - 1))"

definition to_double :: "rat \<Rightarrow> rat" where
  \<comment> \<open>the double nearest to \<open>x\<close>, ties to even: 53 significant bits, and multiples of
      \<open>2 ^ - 1074\<close> in the subnormal range; \<^verbatim>\<open>float(n)\<close> of an int, the value of a literal\<close>
  "to_double x =
     (if x = 0 then 0
      else let ulp = 2 powi (max (exponent x - 52) (- 1074))
           in of_int (round_half_even (x / ulp)) * ulp)"

definition float_mul :: "rat \<Rightarrow> rat \<Rightarrow> rat" where
  \<comment> \<open>\<^verbatim>\<open>a * b\<close> where an operand is a float\<close>
  "float_mul a b = to_double (to_double a * to_double b)"

definition float_div :: "rat \<Rightarrow> rat \<Rightarrow> rat" where
  \<comment> \<open>\<^verbatim>\<open>a / b\<close> where an operand is a float\<close>
  "float_div a b = to_double (to_double a / to_double b)"

definition round2 :: "rat \<Rightarrow> rat" where
  \<comment> \<open>\<^verbatim>\<open>round(x, 2)\<close>: the exact value of \<open>x\<close> is rounded to two decimals, half to even,
      and the double nearest to that decimal is returned\<close>
  "round2 x = to_double (of_int (round_half_even (x * 100)) / 100)"

subsection \<open>Rows\<close>

datatype trend =
    Up      \<comment> \<open>the up arrow, "near 52-week high"\<close>
  | Down    \<comment> \<open>the down arrow, "near 52-week low"\<close>
  | Flat    \<comment> \<open>the left-right arrow, "in-between"\<close>

record row =
  Company :: string
  Current_Price :: rat
  High_52_Week :: rat
  Low_52_Week :: rat
  Trend :: trend
  Market_Cap_Cr :: rat
  PE_Ratio :: "rat option"
  ROE_Percent :: rat

definition trend_of :: "rat \<Rightarrow> rat \<Rightarrow> rat \<Rightarrow> trend" where
  "trend_of current high low =
     (if current > float_mul high (95 / 100) then Up
      else if current < float_mul low (105 / 100) then Down
      else Flat)"

definition make_row :: "string \<Rightarrow> info \<Rightarrow> row" where
  \<comment> \<open>the body of the loop of \<^verbatim>\<open>fetch_data\<close> after the provider call\<close>
  "make_row name info =
     (let current = get_default info ''currentPrice'' 0;
          high = get_default info ''fiftyTwoWeekHigh'' 0;
          low = get_default info ''fiftyTwoWeekLow'' 0;
          trend = trend_of current high low
      in \<lparr> Company = name,
           Current_Price = current,
           High_52_Week = high,
           Low_52_Week = low,
           Trend = trend,
           Market_Cap_Cr = round2 (float_div (get_default info ''marketCap'' 0) 10000000),
           PE_Ratio = info ''trailingPE'',
           ROE_Percent = round2 (float_mul (get_default info ''returnOnEquity'' 0) 100) \<rparr>)"

subsection \<open>Data frames\<close>

text \<open>
  A frame built from a list of dicts takes its columns from the keys of the dicts: a
  frame built from the empty list has no columns at all. Selecting a column that the
  frame does not have raises \<^verbatim>\<open>KeyError\<close>.
\<close>

record dataframe =
  columns :: "string list"
  rows :: "row list"

definition column_names :: "string list" where
  "column_names =
     [''Company'', ''Current Price'', ''52-Week High'', ''52-Week Low'', ''Trend'',
      ''Market Cap (Cr)'', ''P/E Ratio'', ''ROE (%)'']"

definition DataFrame :: "row list \<Rightarrow> dataframe" where
  \<comment> \<open>\<^verbatim>\<open>pd.DataFrame(data)\<close>\<close>
  "DataFrame data = \<lparr> columns = (if data = [] then [] else column_names), rows = data \<rparr>"

definition getitem :: "dataframe \<Rightarrow> string \<Rightarrow> (row \<Rightarrow> 'a) \<Rightarrow> error + 'a list" where
  \<comment> \<open>\<^verbatim>\<open>df[name]\<close>, the series of one column; \<open>field\<close> reads that column's cell of a row\<close>
  "getitem df name field =
     (if name \<in> set (columns df) then Inr (map field (rows df)) else Inl (KeyError name))"

definition series_ge :: "rat list \<Rightarrow> int \<Rightarrow> bool list" where
  \<comment> \<open>\<^verbatim>\<open>series >= bound\<close>\<close>
  "series_ge series bound = map (\<lambda>v. of_int bound \<le> v) series"

definition series_le :: "rat option list \<Rightarrow> int \<Rightarrow> bool list" where
  \<comment> \<open>\<^verbatim>\<open>series <= bound\<close>: a missing cell compares false\<close>
  "series_le series bound =
     map (\<lambda>c. case c of None \<Rightarrow> False | Some v \<Rightarrow> v \<le> of_int bound) series"

definition series_and :: "bool list \<Rightarrow> bool list \<Rightarrow> bool list" where
  \<comment> \<open>\<^verbatim>\<open>a & b\<close> on two boolean series of the same frame\<close>
  "series_and a b = map2 (\<and>) a b"

definition select_mask :: "dataframe \<Rightarrow> bool list \<Rightarrow> dataframe" where
  \<comment> \<open>\<^verbatim>\<open>df[mask]\<close>: the rows whose mask entry is true, in order, under the same columns\<close>
  "select_mask df keep = df \<lparr> rows := map fst (filter snd (zip (rows df) keep)) \<rparr>"

subsection \<open>fetch\_data\<close>

fun fetch_loop :: "'s provider \<Rightarrow> tickers \<Rightarrow> row list \<Rightarrow> 's \<Rightarrow> (error + row list) \<times> 's" where
  "fetch_loop P [] data s = (Inr data, s)"
| "fetch_loop P ((name, symbol) # ts) data s =
     (case P symbol s of
        (Inl e, s') \<Rightarrow> (Inl e, s')
      | (Inr info, s') \<Rightarrow> fetch_loop P ts (data @ [make_row name info]) s')"

definition fetch_data :: "'s provider \<Rightarrow> tickers \<Rightarrow> 's \<Rightarrow> (error + dataframe) \<times> 's" where
  "fetch_data P tickers s =
     (case fetch_loop P tickers [] s of
        (Inl e, s') \<Rightarrow> (Inl e, s')
      | (Inr data, s') \<Rightarrow> (Inr (DataFrame data), s'))"

subsection \<open>The module-level pipeline\<close>

fun dict_comprehension :: "tickers \<Rightarrow> string list \<Rightarrow> tickers \<Rightarrow> error + tickers" where
  "dict_comprehension dir [] acc = Inr acc"
| "dict_comprehension dir (k # ks) acc =
     (case map_of dir k of
        None \<Rightarrow> Inl (KeyError k)
      | Some v \<Rightarrow> dict_comprehension dir ks (AList.update k v acc))"

definition filtered_tickers :: "tickers \<Rightarrow> string list \<Rightarrow> error + tickers" where
  \<comment> \<open>\<^verbatim>\<open>{k: bank_nifty_tickers[k] for k in selected_companies}\<close>\<close>
  "filtered_tickers dir selected_companies = dict_comprehension dir selected_companies []"

definition filter_stage :: "dataframe \<Rightarrow> int \<Rightarrow> int \<Rightarrow> error + dataframe" where
  \<comment> \<open>\<^verbatim>\<open>df[(df["ROE (%)"] >= min_roe) & (df["P/E Ratio"] <= max_pe)]\<close>\<close>
  "filter_stage df min_roe max_pe =
     (case getitem df ''ROE (%)'' ROE_Percent of
        Inl e \<Rightarrow> Inl e
      | Inr roe \<Rightarrow>
          (case getitem df ''P/E Ratio'' PE_Ratio of
             Inl e \<Rightarrow> Inl e
           | Inr pe \<Rightarrow>
               Inr (select_mask df (series_and (series_ge roe min_roe) (series_le pe max_pe)))))"

definition pipeline ::
  "'s provider \<Rightarrow> tickers \<Rightarrow> string list \<Rightarrow> int \<Rightarrow> int \<Rightarrow> 's \<Rightarrow> (error + dataframe) \<times> 's" where
  "pipeline P dir selected_companies min_roe max_pe s =
     (case filtered_tickers dir selected_companies of
        Inl e \<Rightarrow> (Inl e, s)
      | Inr ft \<Rightarrow>
          (case fetch_data P ft s of
             (Inl e, s') \<Rightarrow> (Inl e, s')
           | (Inr df, s') \<Rightarrow> (filter_stage df min_roe max_pe, s')))"

subsection \<open>Sample inputs\<close>

text \<open>
  A provider whose responses are a fixed function of the symbol, and which records every
  query it receives: the state is the list of symbols asked for so far. In the quotes, a
  float that the provider gives as a decimal is written \<open>to_double\<close> of that decimal.
\<close>

definition recorded :: "(string \<Rightarrow> error + info) \<Rightarrow> string list provider" where
  "recorded resp symbol calls = (resp symbol, calls @ [symbol])"

definition example_quote :: info where
  "example_quote =
     [''currentPrice'' \<mapsto> 1500, ''fiftyTwoWeekHigh'' \<mapsto> 1600, ''fiftyTwoWeekLow'' \<mapsto> 1000,
      ''marketCap'' \<mapsto> 3500000000000, ''trailingPE'' \<mapsto> to_double (182 / 10),
      ''returnOnEquity'' \<mapsto> to_double (17 / 100)]"


definition sample_response :: "string \<Rightarrow> error + info" where
  "sample_response symbol =
     (if symbol = ''HDFCBANK.NS'' then Inr example_quote
      else if symbol = ''PNB.NS'' then Inl (ProviderError ''connection failed'')
      else Inr Map.empty)"

definition no_pe_quote :: info where
  "no_pe_quote = [''returnOnEquity'' \<mapsto> to_double (20 / 100)]"


definition rounded_roe_quote :: info where
  "rounded_roe_quote = [''returnOnEquity'' \<mapsto> to_double (5015 / 100000)]"

definition sample_quotes :: "string \<Rightarrow> info" where
  "sample_quotes symbol = (if symbol = ''HDFCBANK.NS'' then example_quote else Map.empty)"

section \<open>Properties\<close>

subsection \<open>Rounding\<close>

lemma round_half_even_close: "\<bar>of_int (round_half_even x) - x\<bar> \<le> 1 / 2"
proof -
  define f where "f = \<lfloor>x\<rfloor>"
  have lo: "of_int f \<le> x" and hi: "x < of_int f + 1"
    unfolding f_def by linarith+
  have eq: "round_half_even x =
      (if x - of_int f < 1 / 2 then f else if 1 / 2 < x - of_int f then f + 1
       else if even f then f else f + 1)"
    unfolding round_half_even_def Let_def f_def ..
  consider "x - of_int f < 1 / 2" | "1 / 2 < x - of_int f" | "x - of_int f = 1 / 2"
    by linarith
  then show ?thesis
  proof cases
    case 1
    with lo show ?thesis unfolding eq by simp
  next
    case 2
    with hi show ?thesis unfolding eq by simp
  next
    case 3
    then show ?thesis unfolding eq by (cases "even f") simp_all
  qed
qed

text \<open>
  \<open>to_double\<close> rounds to the nearest point of the grid of doubles around \<open>x\<close>: the
  result is at most half a unit in the last place away, which in the normal range is a
  relative error of at most \<open>2 ^ - 53\<close>.
\<close>

lemma exponent_bounds:
  assumes "x \<noteq> 0"
  shows "2 powi exponent x \<le> \<bar>x\<bar>" and "\<bar>x\<bar> < 2 powi (exponent x + 1)"
proof -
  have "2 powi exponent x \<le> \<bar>x\<bar> \<and> \<bar>x\<bar> < 2 powi (exponent x + 1)"
  proof (cases "1 \<le> \<bar>x\<bar>")
    case True
    define n where "n = \<lfloor>\<bar>x\<bar>\<rfloor>"
    have n: "1 \<le> n" "of_int n \<le> \<bar>x\<bar>" "\<bar>x\<bar> < of_int n + 1"
      using True unfolding n_def by linarith+
    define b where "b = nat (bitlen n - 1)"
    from n(1) have pos: "0 < n" by simp
    from bitlen_bounds [OF pos] have lo: "2 ^ b \<le> n" and hi: "n < 2 ^ nat (bitlen n)"
      unfolding b_def by simp_all
    have "1 \<le> bitlen n"
      using pos by (simp add: bitlen_alt_def)
    then have nb: "nat (bitlen n) = Suc b" and e: "exponent x = int b"
      using True by (simp_all add: b_def exponent_def n_def)
    from hi have "n + 1 \<le> 2 ^ Suc b"
      unfolding nb by simp
    then have "(of_int (n + 1) :: rat) \<le> of_int (2 ^ Suc b)"
      by (simp only: of_int_le_iff)
    then have "(of_int n :: rat) + 1 \<le> 2 ^ Suc b"
      by simp
    with n(3) have up: "\<bar>x\<bar> < 2 ^ Suc b"
      by linarith
    from lo have "(of_int (2 ^ b) :: rat) \<le> of_int n"
      by (simp only: of_int_le_iff)
    then have "(2::rat) ^ b \<le> of_int n"
      by simp
    with n(2) have low: "2 ^ b \<le> \<bar>x\<bar>"
      by linarith
    have "int b + 1 = int (Suc b)" by simp
    then show ?thesis
      unfolding e using low up by (simp only: power_int_of_nat)
  next
    case False
    define y where "y = 1 / \<bar>x\<bar>"
    have xpos: "0 < \<bar>x\<bar>" using assms by simp
    with False have y1: "1 < y"
      unfolding y_def by (simp add: field_simps)
    define m where "m = \<lceil>y\<rceil> - 1"
    have m: "1 \<le> m" "of_int m < y" "y \<le> of_int m + 1"
      using y1 unfolding m_def by linarith+
    define b where "b = nat (bitlen m - 1)"
    from m(1) have pos: "0 < m" by simp
    from bitlen_bounds [OF pos] have lo: "2 ^ b \<le> m" and hi: "m < 2 ^ nat (bitlen m)"
      unfolding b_def by simp_all
    have "1 \<le> bitlen m"
      using pos by (simp add: bitlen_alt_def)
    then have nb: "nat (bitlen m) = Suc b" and e: "exponent x = - int (Suc b)"
      using False by (simp_all add: b_def exponent_def m_def y_def)
    from hi have "m + 1 \<le> 2 ^ Suc b"
      unfolding nb by simp
    then have "(of_int (m + 1) :: rat) \<le> of_int (2 ^ Suc b)"
      by (simp only: of_int_le_iff)
    then have "(of_int m :: rat) + 1 \<le> 2 ^ Suc b"
      by simp
    with m(3) have up: "y \<le> 2 ^ Suc b"
      by linarith
    from lo have "(of_int (2 ^ b) :: rat) \<le> of_int m"
      by (simp only: of_int_le_iff)
    then have "(2::rat) ^ b \<le> of_int m"
      by simp
    with m(2) have low: "2 ^ b < y"
      by linarith
    have p1: "(2::rat) powi (- int (Suc b)) = 1 / 2 ^ Suc b"
      by (simp only: power_int_minus power_int_of_nat inverse_eq_divide)
    have "- int (Suc b) + 1 = - int b"
      by simp
    then have p2: "(2::rat) powi (- int (Suc b) + 1) = 1 / 2 ^ b"
      by (simp only: power_int_minus power_int_of_nat inverse_eq_divide)
    have "1 / 2 ^ Suc b \<le> \<bar>x\<bar>"
      using up xpos unfolding y_def by (simp add: field_simps)
    moreover have "\<bar>x\<bar> < 1 / 2 ^ b"
      using low xpos unfolding y_def by (simp add: field_simps)
    ultimately show ?thesis
      unfolding e p1 p2 by simp
  qed
  then show "2 powi exponent x \<le> \<bar>x\<bar>" and "\<bar>x\<bar> < 2 powi (exponent x + 1)"
    by simp_all
qed

lemma to_double_close:
  assumes "x \<noteq> 0"
  shows "\<bar>to_double x - x\<bar> \<le> 2 powi (max (exponent x - 52) (- 1074)) / 2"
proof -
  define u :: rat where "u = 2 powi (max (exponent x - 52) (- 1074))"
  have upos: "0 < u"
    unfolding u_def by simp
  have td: "to_double x = of_int (round_half_even (x / u)) * u"
    using assms by (simp add: to_double_def Let_def u_def)
  have "\<bar>of_int (round_half_even (x / u)) - x / u\<bar> \<le> 1 / 2"
    by (rule round_half_even_close)
  then have "\<bar>of_int (round_half_even (x / u)) - x / u\<bar> * u \<le> 1 / 2 * u"
    using upos by (intro mult_right_mono) simp_all
  moreover have "\<bar>of_int (round_half_even (x / u)) - x / u\<bar> * u
      = \<bar>(of_int (round_half_even (x / u)) - x / u) * u\<bar>"
    using upos by (simp add: abs_mult)
  moreover have "(of_int (round_half_even (x / u)) - x / u) * u
      = of_int (round_half_even (x / u)) * u - x"
    using upos by (simp add: left_diff_distrib)
  ultimately show ?thesis
    unfolding td u_def [symmetric] by simp
qed

lemma to_double_relative_error:
  assumes "2 powi (- 1022) \<le> \<bar>x\<bar>"
  shows "\<bar>to_double x - x\<bar> \<le> \<bar>x\<bar> / 2 ^ 53"
proof -
  have pos: "(0::rat) < 2 powi (- 1022)"
    by simp
  with assms have nz: "x \<noteq> 0"
    by auto
  from exponent_bounds(2) [OF nz] assms have lt: "(2::rat) powi (- 1022) < 2 powi (exponent x + 1)"
    by linarith
  have "- 1022 < exponent x + 1"
  proof (rule ccontr)
    assume "\<not> - 1022 < exponent x + 1"
    then have "exponent x + 1 \<le> - 1022"
      by simp
    then have "(2::rat) powi (exponent x + 1) \<le> 2 powi (- 1022)"
      by (intro power_int_increasing) simp_all
    with lt show False
      by simp
  qed
  then have m: "max (exponent x - 52) (- 1074) = exponent x - 52"
    by simp
  have "(2::rat) powi (exponent x - 52) / 2 = 2 powi exponent x / 2 ^ 53"
    by (simp add: power_int_diff)
  also have "\<dots> \<le> \<bar>x\<bar> / 2 ^ 53"
    using exponent_bounds(1) [OF nz] by (simp add: divide_right_mono)
  finally show ?thesis
    using to_double_close [OF nz] unfolding m by linarith
qed

lemma to_double_zero: "to_double 0 = 0"
  by (simp add: to_double_def)

lemma float_mul_zero: "float_mul 0 b = 0"
  by (simp add: float_mul_def to_double_zero)

lemma float_div_zero: "float_div 0 b = 0"
  by (simp add: float_div_def to_double_zero)

lemma round2_zero: "round2 0 = 0"
  by (simp add: round2_def round_half_even_def to_double_zero)

text \<open>Some doubles that are known by their bits: 0.1, 0.95, 1.05, and a tie above \<open>2 ^ 53\<close>.\<close>

lemma known_doubles:
  "to_double (1 / 10) = 3602879701896397 / 2 ^ 55"
  "to_double (95 / 100) = 8556839292003942 / 2 ^ 53"
  "to_double (105 / 100) = 4728779608739021 / 2 ^ 52"
  "to_double (2 ^ 53 + 1) = 2 ^ 53"
  "to_double (2 ^ 53 + 3) = 2 ^ 53 + 4"
  by code_simp+

lemma round2_grid:
  "\<exists>k::int. round2 x = to_double (of_int k / 100) \<and> \<bar>of_int k / 100 - x\<bar> \<le> 1 / 200"
proof -
  have "\<bar>of_int (round_half_even (x * 100)) - x * 100\<bar> \<le> 1 / 2"
    by (rule round_half_even_close)
  then have "\<bar>of_int (round_half_even (x * 100)) / 100 - x\<bar> \<le> 1 / 200"
    by (simp add: abs_if field_simps split: if_splits)
  then show ?thesis
    unfolding round2_def by blast
qed

subsection \<open>The sample quotes\<close>

lemma example_quote_fields:
  "get_default example_quote ''currentPrice'' 0 = 1500"
  "get_default example_quote ''fiftyTwoWeekHigh'' 0 = 1600"
  "get_default example_quote ''fiftyTwoWeekLow'' 0 = 1000"
  "get_default example_quote ''marketCap'' 0 = 3500000000000"
  "example_quote ''trailingPE'' = Some (to_double (182 / 10))"
  "get_default example_quote ''returnOnEquity'' 0 = to_double (17 / 100)"
  by (simp_all add: get_default_def example_quote_def)

lemma example_row:
  "make_row name example_quote =
     \<lparr> Company = name, Current_Price = 1500, High_52_Week = 1600, Low_52_Week = 1000,
       Trend = Flat, Market_Cap_Cr = 350000, PE_Ratio = Some (to_double (182 / 10)),
       ROE_Percent = 17 \<rparr>"
proof -
  have t: "trend_of 1500 1600 1000 = Flat"
    by code_simp
  have c: "round2 (float_div 3500000000000 10000000) = 350000"
    by code_simp
  have r: "round2 (float_mul (to_double (17 / 100)) 100) = 17"
    by code_simp
  show ?thesis
    unfolding make_row_def Let_def example_quote_fields t c r ..
qed

lemma example_pe_bound: "to_double (182 / 10) \<le> 25" "to_double (91 / 5) \<le> 25"
  by code_simp+



lemma rounded_roe_quote_fields:
  "get_default rounded_roe_quote ''returnOnEquity'' 0 = to_double (5015 / 100000)"
  by (simp add: get_default_def rounded_roe_quote_def)

lemma absent_roe_zero: "ROE_Percent (make_row name (info(''returnOnEquity'' := None))) = 0"
proof -
  have "get_default (info(''returnOnEquity'' := None)) ''returnOnEquity'' 0 = 0"
    by (simp add: get_default_def)
  then show ?thesis
    by (simp add: make_row_def Let_def float_mul_zero round2_zero)
qed

subsection \<open>The trend indicator\<close>

text \<open>
  C3, as the specification states it: a quote whose current price, 52-week high and
  52-week low are all zero gets the trend Up. Both tests of the trend rule are strict:
  \<open>0 > 0 * 0.95\<close> is false and \<open>0 < 0 * 1.05\<close> is false, so the trend is not Up.
\<close>

theorem zero_quote_trend_up_counterexample:
  "Trend (make_row ''HDFC Bank''
      [''currentPrice'' \<mapsto> 0, ''fiftyTwoWeekHigh'' \<mapsto> 0, ''fiftyTwoWeekLow'' \<mapsto> 0]) \<noteq> Up"
  by (simp add: make_row_def get_default_def trend_of_def float_mul_zero)

text \<open>
  C3, amended: a quote whose current price, 52-week high and 52-week low are all zero
  (given as zero or left out by the provider) gets the trend Flat.
\<close>

theorem zero_quote_trend_flat:
  assumes "get_default info ''currentPrice'' 0 = 0"
    and "get_default info ''fiftyTwoWeekHigh'' 0 = 0"
    and "get_default info ''fiftyTwoWeekLow'' 0 = 0"
  shows "Trend (make_row name info) = Flat"
  using assms by (simp add: make_row_def trend_of_def float_mul_zero)

theorem zero_quote_trend_flat_witness:
  "get_default Map.empty ''currentPrice'' 0 = 0
   \<and> get_default Map.empty ''fiftyTwoWeekHigh'' 0 = 0
   \<and> get_default Map.empty ''fiftyTwoWeekLow'' 0 = 0
   \<and> Trend (make_row ''State Bank of India'' Map.empty) = Flat"
  using zero_quote_trend_flat [of Map.empty "''State Bank of India''"]
  by (simp add: get_default_def)




subsection \<open>Scaling of market capitalisation and return on equity\<close>

text \<open>
  C6, as the specification states it: the ROE in percent is the provider's return on
  equity times 100, rounded to two decimals. For the return on equity 0.05015 (as a
  double) the exact product lies above 5.015, so rounded to two decimals it is 5.02. The
  program rounds the double product, which lies below 5.015, and stores 5.01 (as a
  double), more than 0.005 away from the exact product.
\<close>

theorem exact_rounding_counterexample:
  "5015 / 1000 < get_default rounded_roe_quote ''returnOnEquity'' 0 * 100
   \<and> \<bar>502 / 100 - get_default rounded_roe_quote ''returnOnEquity'' 0 * 100\<bar> < 1 / 200
   \<and> float_mul (get_default rounded_roe_quote ''returnOnEquity'' 0) 100 < 5015 / 1000
   \<and> ROE_Percent (make_row ''Federal Bank'' rounded_roe_quote) = to_double (501 / 100)
   \<and> \<not> \<bar>ROE_Percent (make_row ''Federal Bank'' rounded_roe_quote)
          - get_default rounded_roe_quote ''returnOnEquity'' 0 * 100\<bar> \<le> 1 / 200"
proof -
  have above: "5015 / 1000 < to_double (5015 / 100000) * 100"
    by code_simp
  have nearest: "\<bar>502 / 100 - to_double (5015 / 100000) * 100\<bar> < 1 / 200"
    by code_simp
  have below: "float_mul (to_double (5015 / 100000)) 100 < 5015 / 1000"
    by code_simp
  have stored: "round2 (float_mul (to_double (5015 / 100000)) 100) = to_double (501 / 100)"
    by code_simp
  have far: "\<not> \<bar>to_double (501 / 100) - to_double (5015 / 100000) * 100\<bar> \<le> 1 / 200"
    by code_simp
  have roe: "ROE_Percent (make_row ''Federal Bank'' rounded_roe_quote) = to_double (501 / 100)"
    unfolding make_row_def Let_def rounded_roe_quote_fields stored by simp
  show ?thesis
    unfolding roe rounded_roe_quote_fields using above nearest below far by (intro conjI refl)
qed

text \<open>
  C6, amended: the market capitalisation in crores is the double nearest to a multiple of
  0.01 that is at most 0.005 away from the double quotient of the provider's market
  capitalisation and 10,000,000. The ROE in percent is the double nearest to a multiple
  of 0.01 that is at most 0.005 away from the double product of the provider's return on
  equity and 100, and it is 0 when the provider gives no return on equity. The example
  quote of the specification yields the row the specification lists, with the P/E it was
  given.
\<close>

theorem make_row_scaling_double:
  "(\<exists>k::int. Market_Cap_Cr (make_row name info) = to_double (of_int k / 100)
       \<and> \<bar>of_int k / 100 - float_div (get_default info ''marketCap'' 0) 10000000\<bar> \<le> 1 / 200)
   \<and> (\<exists>k::int. ROE_Percent (make_row name info) = to_double (of_int k / 100)
       \<and> \<bar>of_int k / 100 - float_mul (get_default info ''returnOnEquity'' 0) 100\<bar> \<le> 1 / 200)
   \<and> ROE_Percent (make_row name (info(''returnOnEquity'' := None))) = 0
   \<and> make_row name example_quote
       = \<lparr> Company = name, Current_Price = 1500, High_52_Week = 1600, Low_52_Week = 1000,
           Trend = Flat, Market_Cap_Cr = 350000, PE_Ratio = Some (to_double (182 / 10)),
           ROE_Percent = 17 \<rparr>"
proof -
  have cap: "Market_Cap_Cr (make_row name info)
      = round2 (float_div (get_default info ''marketCap'' 0) 10000000)"
    and roe: "ROE_Percent (make_row name info)
      = round2 (float_mul (get_default info ''returnOnEquity'' 0) 100)"
    by (simp_all add: make_row_def Let_def)
  show ?thesis
    unfolding cap roe
    by (intro conjI round2_grid absent_roe_zero example_row)
qed

subsection \<open>An empty selection\<close>

text \<open>
  C2 states that an empty selection of companies yields an empty result table and no
  error. In the program, \<^verbatim>\<open>fetch_data\<close> then builds the frame from an empty list, the
  frame has no columns, and the filter statement raises \<^verbatim>\<open>KeyError\<close> on its first column
  access, before any chart or export.
\<close>

theorem empty_selection_raises:
  "pipeline P dir [] min_roe max_pe s = (Inl (KeyError ''ROE (%)''), s)"
proof -
  have "filtered_tickers dir [] = Inr []"
    by (simp add: filtered_tickers_def)
  moreover have "fetch_data P [] s = (Inr (DataFrame []), s)"
    by (simp add: fetch_data_def)
  moreover have "filter_stage (DataFrame []) min_roe max_pe = Inl (KeyError ''ROE (%)'')"
    by (simp add: filter_stage_def getitem_def DataFrame_def)
  ultimately show ?thesis
    by (simp add: pipeline_def)
qed

subsection \<open>Rows of quotes without data\<close>

lemma empty_row:
  "make_row name Map.empty =
     \<lparr> Company = name, Current_Price = 0, High_52_Week = 0, Low_52_Week = 0,
       Trend = Flat, Market_Cap_Cr = 0, PE_Ratio = None, ROE_Percent = 0 \<rparr>"
proof -
  have g: "get_default Map.empty k 0 = 0" for k
    by (simp add: get_default_def)
  have t: "trend_of 0 0 0 = Flat"
    by (simp add: trend_of_def float_mul_zero)
  show ?thesis
    unfolding make_row_def Let_def g t by (simp add: float_mul_zero float_div_zero round2_zero)
qed

lemma no_pe_row:
  "make_row name no_pe_quote =
     \<lparr> Company = name, Current_Price = 0, High_52_Week = 0, Low_52_Week = 0,
       Trend = Flat, Market_Cap_Cr = 0, PE_Ratio = None, ROE_Percent = 20 \<rparr>"
proof -
  have g: "get_default no_pe_quote ''currentPrice'' 0 = 0"
    "get_default no_pe_quote ''fiftyTwoWeekHigh'' 0 = 0"
    "get_default no_pe_quote ''fiftyTwoWeekLow'' 0 = 0"
    "get_default no_pe_quote ''marketCap'' 0 = 0"
    "get_default no_pe_quote ''returnOnEquity'' 0 = to_double (20 / 100)"
    "no_pe_quote ''trailingPE'' = None"
    by (simp_all add: get_default_def no_pe_quote_def)
  have t: "trend_of 0 0 0 = Flat"
    by (simp add: trend_of_def float_mul_zero)
  have z: "round2 (float_div 0 10000000) = 0"
    by (simp add: float_div_zero round2_zero)
  have r: "round2 (float_mul (to_double (20 / 100)) 100) = 20"
    by code_simp
  show ?thesis
    unfolding make_row_def Let_def g t z r ..
qed

lemma Company_make_row: "Company (make_row name info) = name"
  by (simp add: make_row_def Let_def)

subsection \<open>The filter statement\<close>

lemma select_rows_filter:
  "map fst (filter snd (zip xs (map2 (\<and>) (map p xs) (map q xs)))) = filter (\<lambda>r. p r \<and> q r) xs"
  by (induction xs) auto

lemma select_mask_filter:
  "select_mask df (series_and (series_ge (map ROE_Percent (rows df)) min_roe)
                              (series_le (map PE_Ratio (rows df)) max_pe))
   = df \<lparr> rows := filter (\<lambda>r. of_int min_roe \<le> ROE_Percent r \<and>
                 (case PE_Ratio r of None \<Rightarrow> False | Some v \<Rightarrow> v \<le> of_int max_pe)) (rows df) \<rparr>"
  unfolding select_mask_def series_and_def series_ge_def series_le_def map_map comp_def
  using select_rows_filter [of "rows df" "\<lambda>r. of_int min_roe \<le> ROE_Percent r"
      "\<lambda>r. case PE_Ratio r of None \<Rightarrow> False | Some v \<Rightarrow> v \<le> of_int max_pe"]
  by (simp add: comp_def)

lemma filter_stage_Inr:
  assumes "''ROE (%)'' \<in> set (columns df)" and "''P/E Ratio'' \<in> set (columns df)"
  shows "filter_stage df min_roe max_pe =
     Inr (df \<lparr> rows := filter (\<lambda>r. of_int min_roe \<le> ROE_Percent r \<and>
                 (case PE_Ratio r of None \<Rightarrow> False | Some v \<Rightarrow> v \<le> of_int max_pe)) (rows df) \<rparr>)"
  using assms by (simp add: filter_stage_def getitem_def select_mask_filter)

lemma filter_stage_columns:
  assumes "filter_stage df min_roe max_pe = Inr rt"
  shows "''ROE (%)'' \<in> set (columns df)" and "''P/E Ratio'' \<in> set (columns df)"
  using assms by (auto simp: filter_stage_def getitem_def split: if_splits)

lemma filter_stage_rows:
  assumes "filter_stage df min_roe max_pe = Inr rt"
  shows "rt = df \<lparr> rows := filter (\<lambda>r. of_int min_roe \<le> ROE_Percent r \<and>
                 (case PE_Ratio r of None \<Rightarrow> False | Some v \<Rightarrow> v \<le> of_int max_pe)) (rows df) \<rparr>"
  using assms filter_stage_Inr [OF filter_stage_columns [OF assms], of min_roe max_pe] by simp

lemma DataFrame_columns: "data \<noteq> [] \<Longrightarrow> columns (DataFrame data) = column_names"
  by (simp add: DataFrame_def)

lemma column_names_mem: "''ROE (%)'' \<in> set column_names" "''P/E Ratio'' \<in> set column_names"
  by (simp_all add: column_names_def)

lemma filter_stage_DataFrame:
  assumes "data \<noteq> []"
  shows "filter_stage (DataFrame data) min_roe max_pe =
     Inr \<lparr> columns = column_names, rows = filter (\<lambda>r. of_int min_roe \<le> ROE_Percent r \<and>
                 (case PE_Ratio r of None \<Rightarrow> False | Some v \<Rightarrow> v \<le> of_int max_pe)) data \<rparr>"
proof -
  have "''ROE (%)'' \<in> set (columns (DataFrame data))" "''P/E Ratio'' \<in> set (columns (DataFrame data))"
    using assms by (simp_all add: DataFrame_columns column_names_mem)
  then show ?thesis
    using assms by (simp add: filter_stage_Inr) (simp add: DataFrame_def)
qed

subsection \<open>Filtering and absent P/E\<close>

lemma sample_filter:
  "filter_stage (DataFrame [make_row ''IDFC First Bank'' no_pe_quote, make_row ''HDFC Bank'' example_quote]) 10 25
     = Inr \<lparr> columns = column_names, rows = [make_row ''HDFC Bank'' example_quote] \<rparr>"
  by (simp add: filter_stage_DataFrame) (simp add: no_pe_row example_row example_pe_bound)

text \<open>
  C1, as the specification states it: a row whose P/E is absent passes the maximum-P/E
  test and is retained when its ROE is high enough. The row below has no P/E and an ROE
  of 20; filtered with a minimum ROE of 10 and a maximum P/E of 25, nothing is left.
\<close>

theorem absent_pe_retained_counterexample:
  "PE_Ratio (make_row ''IDFC First Bank'' no_pe_quote) = None
   \<and> ROE_Percent (make_row ''IDFC First Bank'' no_pe_quote) = 20
   \<and> filter_stage (DataFrame [make_row ''IDFC First Bank'' no_pe_quote]) 10 25
       = Inr \<lparr> columns = column_names, rows = [] \<rparr>"
  by (simp add: filter_stage_DataFrame) (simp add: no_pe_row)

text \<open>
  C1, amended: for every table and every pair of bounds, a row whose P/E is absent fails
  the maximum-P/E test and is not in the filtered table, whatever its ROE.
\<close>

theorem absent_pe_dropped:
  assumes "filter_stage df min_roe max_pe = Inr rt" and "PE_Ratio r = None"
  shows "r \<notin> set (rows rt)"
  using filter_stage_rows [OF assms(1)] assms(2) by simp

theorem absent_pe_dropped_witness:
  "filter_stage (DataFrame [make_row ''IDFC First Bank'' no_pe_quote, make_row ''HDFC Bank'' example_quote]) 10 25
     = Inr \<lparr> columns = column_names, rows = [make_row ''HDFC Bank'' example_quote] \<rparr>
   \<and> PE_Ratio (make_row ''IDFC First Bank'' no_pe_quote) = None
   \<and> make_row ''IDFC First Bank'' no_pe_quote
       \<notin> set (rows \<lparr> columns = column_names, rows = [make_row ''HDFC Bank'' example_quote] \<rparr>)"
proof -
  have pe: "PE_Ratio (make_row ''IDFC First Bank'' no_pe_quote) = None"
    by (simp add: no_pe_row)
  from sample_filter pe absent_pe_dropped [OF sample_filter pe] show ?thesis
    by blast
qed

text \<open>
  C7: the filter statement is idempotent. Filtering a table that the same bounds have
  already filtered succeeds and returns that table unchanged.
\<close>

theorem filter_stage_idempotent:
  assumes "filter_stage df min_roe max_pe = Inr rt"
  shows "filter_stage rt min_roe max_pe = Inr rt"
proof -
  note rt = filter_stage_rows [OF assms]
  have cols: "columns rt = columns df"
    by (subst rt) simp
  have "''ROE (%)'' \<in> set (columns rt)" and "''P/E Ratio'' \<in> set (columns rt)"
    unfolding cols using filter_stage_columns [OF assms] .
  then have "filter_stage rt min_roe max_pe =
     Inr (rt \<lparr> rows := filter (\<lambda>r. of_int min_roe \<le> ROE_Percent r \<and>
                 (case PE_Ratio r of None \<Rightarrow> False | Some v \<Rightarrow> v \<le> of_int max_pe)) (rows rt) \<rparr>)"
    by (rule filter_stage_Inr)
  also have "filter (\<lambda>r. of_int min_roe \<le> ROE_Percent r \<and>
                 (case PE_Ratio r of None \<Rightarrow> False | Some v \<Rightarrow> v \<le> of_int max_pe)) (rows rt) = rows rt"
    by (subst (1 2) rt) simp
  finally show ?thesis by simp
qed

theorem filter_stage_idempotent_witness:
  "filter_stage (DataFrame [make_row ''IDFC First Bank'' no_pe_quote, make_row ''HDFC Bank'' example_quote]) 10 25
     = Inr \<lparr> columns = column_names, rows = [make_row ''HDFC Bank'' example_quote] \<rparr>
   \<and> filter_stage \<lparr> columns = column_names, rows = [make_row ''HDFC Bank'' example_quote] \<rparr> 10 25
     = Inr \<lparr> columns = column_names, rows = [make_row ''HDFC Bank'' example_quote] \<rparr>"
  using sample_filter filter_stage_idempotent [OF sample_filter] by blast

subsection \<open>The fetch loop\<close>

lemma fetch_loop_companies:
  "fetch_loop P ts data s = (Inr rs, s') \<Longrightarrow> map Company rs = map Company data @ map fst ts"
proof (induction ts arbitrary: data s)
  case Nil
  then show ?case by simp
next
  case (Cons t ts)
  obtain name symbol where t: "t = (name, symbol)"
    by (cases t)
  obtain res s1 where call: "P symbol s = (res, s1)"
    by (cases "P symbol s")
  show ?case
  proof (cases res)
    case (Inl e)
    with Cons.prems t call show ?thesis by simp
  next
    case (Inr info)
    with Cons.prems t call
    have "fetch_loop P ts (data @ [make_row name info]) s1 = (Inr rs, s')"
      by simp
    from Cons.IH [OF this] show ?thesis
      by (simp add: t Company_make_row)
  qed
qed

lemma fetch_data_companies:
  assumes "fetch_data P ts s = (Inr df, s')"
  shows "map Company (rows df) = map fst ts"
proof -
  obtain res s1 where loop: "fetch_loop P ts [] s = (res, s1)"
    by (cases "fetch_loop P ts [] s")
  with assms obtain data where res: "res = Inr data" and df: "df = DataFrame data"
    by (cases res) (auto simp: fetch_data_def)
  from fetch_loop_companies [of P ts "[]" s data s1] loop res
  have "map Company data = map fst ts"
    by simp
  then show ?thesis
    by (simp add: df DataFrame_def)
qed

lemma fetch_loop_agree:
  assumes "\<forall>symbol s. fst (P1 symbol s) = resp symbol"
    and "\<forall>symbol s. fst (P2 symbol s) = resp symbol"
  shows "fst (fetch_loop P1 ts data s1) = fst (fetch_loop P2 ts data s2)"
proof (induction ts arbitrary: data s1 s2)
  case Nil
  show ?case by simp
next
  case (Cons t ts)
  obtain name symbol where t: "t = (name, symbol)"
    by (cases t)
  obtain a1 where c1: "P1 symbol s1 = (resp symbol, a1)"
    using assms(1) by (metis fst_conv surj_pair)
  obtain a2 where c2: "P2 symbol s2 = (resp symbol, a2)"
    using assms(2) by (metis fst_conv surj_pair)
  show ?case
  proof (cases "resp symbol")
    case (Inl e)
    then show ?thesis by (simp add: t c1 c2)
  next
    case (Inr info)
    then show ?thesis
      using Cons.IH [of "data @ [make_row name info]" a1 a2] by (simp add: t c1 c2)
  qed
qed

lemma fetch_data_agree:
  assumes "\<forall>symbol s. fst (P1 symbol s) = resp symbol"
    and "\<forall>symbol s. fst (P2 symbol s) = resp symbol"
  shows "fst (fetch_data P1 ts s1) = fst (fetch_data P2 ts s2)"
proof -
  have "fst (fetch_loop P1 ts [] s1) = fst (fetch_loop P2 ts [] s2)"
    using assms by (rule fetch_loop_agree)
  then show ?thesis
    unfolding fetch_data_def
    by (cases "fetch_loop P1 ts [] s1"; cases "fetch_loop P2 ts [] s2") (auto split: sum.splits)
qed

lemma fetch_loop_recorded:
  assumes "\<forall>(name, symbol) \<in> set ts. resp symbol = Inr (quote symbol)"
  shows "fetch_loop (recorded resp) ts data calls =
     (Inr (data @ map (\<lambda>(name, symbol). make_row name (quote symbol)) ts), calls @ map snd ts)"
  using assms
proof (induction ts arbitrary: data calls)
  case Nil
  show ?case by simp
next
  case (Cons t ts)
  obtain name symbol where t: "t = (name, symbol)"
    by (cases t)
  from Cons.prems have here: "resp symbol = Inr (quote symbol)"
    and rest: "\<forall>(name, symbol) \<in> set ts. resp symbol = Inr (quote symbol)"
    by (simp_all add: t)
  show ?case
    using Cons.IH [OF rest, of "data @ [make_row name (quote symbol)]" "calls @ [symbol]"]
    by (simp add: t recorded_def here)
qed

lemma fetch_loop_recorded_raise:
  assumes "\<forall>(name, symbol) \<in> set before. resp symbol = Inr (quote symbol)"
    and "resp symbol = Inl e"
  shows "fetch_loop (recorded resp) (before @ (name, symbol) # rest) data calls =
     (Inl e, calls @ map snd before @ [symbol])"
  using assms(1)
proof (induction before arbitrary: data calls)
  case Nil
  show ?case by (simp add: recorded_def assms(2))
next
  case (Cons t ts)
  obtain n sym where t: "t = (n, sym)"
    by (cases t)
  from Cons.prems have here: "resp sym = Inr (quote sym)"
    and rest: "\<forall>(name, symbol) \<in> set ts. resp symbol = Inr (quote symbol)"
    by (simp_all add: t)
  show ?case
    using Cons.IH [OF rest, of "data @ [make_row n (quote sym)]" "calls @ [sym]"]
    by (simp add: t recorded_def here)
qed

subsection \<open>The dictionary comprehension\<close>

lemma dict_comprehension_keys:
  "dict_comprehension dir ks acc = Inr ft \<Longrightarrow>
     fst ` set ft \<subseteq> fst ` set acc \<union> (set ks \<inter> fst ` set dir)"
proof (induction ks arbitrary: acc)
  case Nil
  then show ?case by auto
next
  case (Cons k ks)
  from Cons.prems obtain v where look: "map_of dir k = Some v"
    and run: "dict_comprehension dir ks (AList.update k v acc) = Inr ft"
    by (auto split: option.splits)
  from look have "k \<in> fst ` set dir"
    by (metis map_of_eq_None_iff option.distinct(1))
  moreover have "fst ` set (AList.update k v acc) = {k} \<union> fst ` set acc"
    by (rule dom_update)
  ultimately show ?case
    using Cons.IH [OF run] by auto
qed

lemma filtered_tickers_keys:
  "filtered_tickers dir selected = Inr ft \<Longrightarrow> fst ` set ft \<subseteq> set selected \<inter> fst ` set dir"
  using dict_comprehension_keys [of dir selected "[]" ft] by (simp add: filtered_tickers_def)

subsection \<open>The pipeline\<close>

lemma pipeline_Inr:
  assumes "fst (pipeline P dir selected min_roe max_pe s) = Inr rt"
  obtains ft df s' where "filtered_tickers dir selected = Inr ft"
    and "fetch_data P ft s = (Inr df, s')"
    and "filter_stage df min_roe max_pe = Inr rt"
proof (cases "filtered_tickers dir selected")
  case (Inl e)
  with assms show ?thesis by (simp add: pipeline_def)
next
  case ft: (Inr ft)
  obtain res s' where fd: "fetch_data P ft s = (res, s')"
    by (cases "fetch_data P ft s")
  show ?thesis
  proof (cases res)
    case (Inl e)
    with assms ft fd show ?thesis by (simp add: pipeline_def)
  next
    case (Inr df)
    with assms ft fd have "filter_stage df min_roe max_pe = Inr rt"
      by (simp add: pipeline_def)
    with that ft fd Inr show ?thesis by blast
  qed
qed

subsection \<open>The result table\<close>

lemma sample_tickers:
  "filtered_tickers bank_nifty_tickers [''HDFC Bank'', ''ICICI Bank'']
     = Inr [(''HDFC Bank'', ''HDFCBANK.NS''), (''ICICI Bank'', ''ICICIBANK.NS'')]"
  by (simp add: filtered_tickers_def bank_nifty_tickers_def)

lemma sample_fetch:
  "fetch_data (recorded sample_response)
       [(''HDFC Bank'', ''HDFCBANK.NS''), (''ICICI Bank'', ''ICICIBANK.NS'')] calls
     = (Inr (DataFrame [make_row ''HDFC Bank'' example_quote, make_row ''ICICI Bank'' Map.empty]),
        calls @ [''HDFCBANK.NS'', ''ICICIBANK.NS''])"
  by (simp add: fetch_data_def recorded_def sample_response_def)

lemma sample_fetch_filter:
  "filter_stage (DataFrame [make_row ''HDFC Bank'' example_quote, make_row ''ICICI Bank'' Map.empty]) 10 25
     = Inr \<lparr> columns = column_names, rows = [make_row ''HDFC Bank'' example_quote] \<rparr>"
  by (simp add: filter_stage_DataFrame) (simp add: example_row empty_row example_pe_bound)

lemma sample_run:
  "pipeline (recorded sample_response) bank_nifty_tickers [''HDFC Bank'', ''ICICI Bank''] 10 25 calls
     = (Inr \<lparr> columns = column_names, rows = [make_row ''HDFC Bank'' example_quote] \<rparr>,
        calls @ [''HDFCBANK.NS'', ''ICICIBANK.NS''])"
  unfolding pipeline_def sample_tickers by (simp add: sample_fetch sample_fetch_filter)

text \<open>
  C5: every row of a result table that the pipeline produces names a selected company of
  the directory, has an ROE of at least the minimum, and has a P/E that is absent or at
  most the maximum.
\<close>

theorem result_table_invariant:
  assumes "fst (pipeline P dir selected min_roe max_pe s) = Inr rt" and "r \<in> set (rows rt)"
  shows "Company r \<in> set selected \<and> Company r \<in> fst ` set dir
    \<and> of_int min_roe \<le> ROE_Percent r
    \<and> (PE_Ratio r = None \<or> (\<exists>v. PE_Ratio r = Some v \<and> v \<le> of_int max_pe))"
proof -
  from assms(1) obtain ft df s' where ft: "filtered_tickers dir selected = Inr ft"
    and fd: "fetch_data P ft s = (Inr df, s')"
    and fs: "filter_stage df min_roe max_pe = Inr rt"
    by (rule pipeline_Inr)
  from assms(2) have r: "r \<in> set (rows df)"
    and roe: "of_int min_roe \<le> ROE_Percent r"
    and pe: "case PE_Ratio r of None \<Rightarrow> False | Some v \<Rightarrow> v \<le> of_int max_pe"
    by (simp_all add: filter_stage_rows [OF fs])
  from r have "Company r \<in> set (map Company (rows df))"
    by simp
  then have "Company r \<in> fst ` set ft"
    by (simp add: fetch_data_companies [OF fd])
  with filtered_tickers_keys [OF ft] have "Company r \<in> set selected" "Company r \<in> fst ` set dir"
    by auto
  moreover from pe have "\<exists>v. PE_Ratio r = Some v \<and> v \<le> of_int max_pe"
    by (cases "PE_Ratio r") simp_all
  ultimately show ?thesis
    using roe by blast
qed

theorem result_table_invariant_witness:
  "fst (pipeline (recorded sample_response) bank_nifty_tickers [''HDFC Bank'', ''ICICI Bank''] 10 25 [])
     = Inr \<lparr> columns = column_names, rows = [make_row ''HDFC Bank'' example_quote] \<rparr>
   \<and> make_row ''HDFC Bank'' example_quote
       \<in> set (rows \<lparr> columns = column_names, rows = [make_row ''HDFC Bank'' example_quote] \<rparr>)
   \<and> Company (make_row ''HDFC Bank'' example_quote) \<in> set [''HDFC Bank'', ''ICICI Bank'']
   \<and> Company (make_row ''HDFC Bank'' example_quote) \<in> fst ` set bank_nifty_tickers
   \<and> of_int 10 \<le> ROE_Percent (make_row ''HDFC Bank'' example_quote)
   \<and> (PE_Ratio (make_row ''HDFC Bank'' example_quote) = None
      \<or> (\<exists>v. PE_Ratio (make_row ''HDFC Bank'' example_quote) = Some v \<and> v \<le> of_int 25))"
proof -
  have run: "fst (pipeline (recorded sample_response) bank_nifty_tickers [''HDFC Bank'', ''ICICI Bank''] 10 25 [])
     = Inr \<lparr> columns = column_names, rows = [make_row ''HDFC Bank'' example_quote] \<rparr>"
    by (simp add: sample_run)
  have mem: "make_row ''HDFC Bank'' example_quote
       \<in> set (rows \<lparr> columns = column_names, rows = [make_row ''HDFC Bank'' example_quote] \<rparr>)"
    by simp
  from run mem result_table_invariant [OF run mem] show ?thesis
    by blast
qed

text \<open>
  C9: every row of a result table that the pipeline produces has a P/E that is present and
  at most the maximum; a row without P/E never reaches the table that is displayed,
  charted and exported.
\<close>

theorem result_table_pe_present:
  assumes "fst (pipeline P dir selected min_roe max_pe s) = Inr rt" and "r \<in> set (rows rt)"
  shows "\<exists>v. PE_Ratio r = Some v \<and> v \<le> of_int max_pe"
proof -
  from assms(1) obtain ft df s' where "filter_stage df min_roe max_pe = Inr rt"
    by (rule pipeline_Inr)
  from assms(2) filter_stage_rows [OF this]
  have "case PE_Ratio r of None \<Rightarrow> False | Some v \<Rightarrow> v \<le> of_int max_pe"
    by simp
  then show ?thesis
    by (cases "PE_Ratio r") simp_all
qed

theorem result_table_pe_present_witness:
  "fst (pipeline (recorded sample_response) bank_nifty_tickers [''HDFC Bank'', ''ICICI Bank''] 10 25 [])
     = Inr \<lparr> columns = column_names, rows = [make_row ''HDFC Bank'' example_quote] \<rparr>
   \<and> make_row ''HDFC Bank'' example_quote
       \<in> set (rows \<lparr> columns = column_names, rows = [make_row ''HDFC Bank'' example_quote] \<rparr>)
   \<and> (\<exists>v. PE_Ratio (make_row ''HDFC Bank'' example_quote) = Some v \<and> v \<le> of_int 25)"
proof -
  have run: "fst (pipeline (recorded sample_response) bank_nifty_tickers [''HDFC Bank'', ''ICICI Bank''] 10 25 [])
     = Inr \<lparr> columns = column_names, rows = [make_row ''HDFC Bank'' example_quote] \<rparr>"
    by (simp add: sample_run)
  have mem: "make_row ''HDFC Bank'' example_quote
       \<in> set (rows \<lparr> columns = column_names, rows = [make_row ''HDFC Bank'' example_quote] \<rparr>)"
    by simp
  from run mem result_table_pe_present [OF run mem] show ?thesis
    by blast
qed

text \<open>
  C10: the outcome of the pipeline is determined by the provider's responses and the
  criteria. Two runs against providers that answer every symbol with the same fixed
  response, started in any two states of the outside world, end with the same table, or
  with the same error.
\<close>

theorem pipeline_deterministic:
  assumes "\<forall>symbol s. fst (P1 symbol s) = resp symbol"
    and "\<forall>symbol s. fst (P2 symbol s) = resp symbol"
  shows "fst (pipeline P1 dir selected min_roe max_pe s1)
       = fst (pipeline P2 dir selected min_roe max_pe s2)"
proof (cases "filtered_tickers dir selected")
  case (Inl e)
  then show ?thesis by (simp add: pipeline_def)
next
  case (Inr ft)
  have "fst (fetch_data P1 ft s1) = fst (fetch_data P2 ft s2)"
    using assms by (rule fetch_data_agree)
  then show ?thesis
    unfolding pipeline_def Inr
    by (cases "fetch_data P1 ft s1"; cases "fetch_data P2 ft s2") (auto split: sum.splits)
qed

theorem pipeline_deterministic_witness:
  "(\<forall>symbol s. fst (recorded sample_response symbol s) = sample_response symbol)
   \<and> fst (pipeline (recorded sample_response) bank_nifty_tickers [''HDFC Bank'', ''ICICI Bank''] 10 25 [])
     = fst (pipeline (recorded sample_response) bank_nifty_tickers [''HDFC Bank'', ''ICICI Bank''] 10 25
         [''SBIN.NS''])
   \<and> fst (pipeline (recorded sample_response) bank_nifty_tickers [''HDFC Bank'', ''ICICI Bank''] 10 25 [])
     = Inr \<lparr> columns = column_names, rows = [make_row ''HDFC Bank'' example_quote] \<rparr>"
proof -
  have fixed: "\<forall>symbol s. fst (recorded sample_response symbol s) = sample_response symbol"
    by (simp add: recorded_def)
  have run: "fst (pipeline (recorded sample_response) bank_nifty_tickers [''HDFC Bank'', ''ICICI Bank''] 10 25 [])
     = Inr \<lparr> columns = column_names, rows = [make_row ''HDFC Bank'' example_quote] \<rparr>"
    by (simp add: sample_run)
  from fixed run
    pipeline_deterministic [OF fixed fixed, of bank_nifty_tickers "[''HDFC Bank'', ''ICICI Bank'']" 10 25
      "[]" "[''SBIN.NS'']"]
  show ?thesis by blast
qed

subsection \<open>Missing data and provider errors\<close>

lemma sample_response_values:
  "sample_response ''HDFCBANK.NS'' = Inr (sample_quotes ''HDFCBANK.NS'')"
  "sample_response ''ICICIBANK.NS'' = Inr (sample_quotes ''ICICIBANK.NS'')"
  "sample_response ''PNB.NS'' = Inl (ProviderError ''connection failed'')"
  "sample_quotes ''HDFCBANK.NS'' = example_quote"
  "sample_quotes ''ICICIBANK.NS'' = Map.empty"
  by (simp_all add: sample_response_def sample_quotes_def)

text \<open>
  C8, as the specification states it: a symbol for which the provider fails is replaced
  by an all-zero quote and the rows of the other symbols are still produced. Here the
  provider raises for the second of three symbols: \<^verbatim>\<open>fetch_data\<close> returns the error and
  no frame, and the third symbol is never asked for.
\<close>

theorem provider_error_aborts_counterexample:
  "sample_response ''PNB.NS'' = Inl (ProviderError ''connection failed'')
   \<and> fetch_data (recorded sample_response)
       [(''HDFC Bank'', ''HDFCBANK.NS''), (''Punjab National Bank'', ''PNB.NS''),
        (''ICICI Bank'', ''ICICIBANK.NS'')] []
     = (Inl (ProviderError ''connection failed''), [''HDFCBANK.NS'', ''PNB.NS''])"
  by (simp add: fetch_data_def recorded_def sample_response_def)

text \<open>
  C8, amended. When the provider answers every symbol, \<^verbatim>\<open>fetch_data\<close> produces one row per
  directory entry, in order, and asks for every symbol exactly once, in order: nothing is
  retried. The row of a symbol for which the provider has no data (an empty response) has
  all numeric fields zero, the trend Flat and no P/E. An error raised by the provider is
  not caught: \<^verbatim>\<open>fetch_data\<close> ends with that error at the first symbol that raises, after
  asking for it once, and produces no table.
\<close>

theorem fetch_data_missing_data:
  "((\<forall>(name, symbol) \<in> set tickers. resp symbol = Inr (quote symbol)) \<longrightarrow>
      fetch_data (recorded resp) tickers calls
        = (Inr (DataFrame (map (\<lambda>(name, symbol). make_row name (quote symbol)) tickers)),
           calls @ map snd tickers))
   \<and> make_row company Map.empty
        = \<lparr> Company = company, Current_Price = 0, High_52_Week = 0, Low_52_Week = 0,
            Trend = Flat, Market_Cap_Cr = 0, PE_Ratio = None, ROE_Percent = 0 \<rparr>
   \<and> ((\<forall>(name, symbol) \<in> set before. resp symbol = Inr (quote symbol)) \<and> resp symbol = Inl e \<longrightarrow>
      fetch_data (recorded resp) (before @ (name, symbol) # rest) calls
        = (Inl e, calls @ map snd before @ [symbol]))"
proof (intro conjI impI)
  assume "\<forall>(name, symbol) \<in> set tickers. resp symbol = Inr (quote symbol)"
  then have "fetch_loop (recorded resp) tickers [] calls =
     (Inr ([] @ map (\<lambda>(name, symbol). make_row name (quote symbol)) tickers), calls @ map snd tickers)"
    by (rule fetch_loop_recorded)
  then show "fetch_data (recorded resp) tickers calls
        = (Inr (DataFrame (map (\<lambda>(name, symbol). make_row name (quote symbol)) tickers)),
           calls @ map snd tickers)"
    by (simp add: fetch_data_def)
next
  show "make_row company Map.empty
        = \<lparr> Company = company, Current_Price = 0, High_52_Week = 0, Low_52_Week = 0,
            Trend = Flat, Market_Cap_Cr = 0, PE_Ratio = None, ROE_Percent = 0 \<rparr>"
    by (rule empty_row)
next
  assume "(\<forall>(name, symbol) \<in> set before. resp symbol = Inr (quote symbol)) \<and> resp symbol = Inl e"
  then have ok: "\<forall>(name, symbol) \<in> set before. resp symbol = Inr (quote symbol)"
    and raised: "resp symbol = Inl e"
    by blast+
  have "fetch_loop (recorded resp) (before @ (name, symbol) # rest) [] calls =
     (Inl e, calls @ map snd before @ [symbol])"
    using ok raised by (rule fetch_loop_recorded_raise)
  then show "fetch_data (recorded resp) (before @ (name, symbol) # rest) calls
        = (Inl e, calls @ map snd before @ [symbol])"
    by (simp add: fetch_data_def)
qed

theorem fetch_data_missing_data_witness:
  "sample_response ''HDFCBANK.NS'' = Inr (sample_quotes ''HDFCBANK.NS'')
   \<and> sample_response ''ICICIBANK.NS'' = Inr (sample_quotes ''ICICIBANK.NS'')
   \<and> sample_quotes ''ICICIBANK.NS'' = Map.empty
   \<and> fetch_data (recorded sample_response)
       [(''HDFC Bank'', ''HDFCBANK.NS''), (''ICICI Bank'', ''ICICIBANK.NS'')] []
     = (Inr (DataFrame [make_row ''HDFC Bank'' (sample_quotes ''HDFCBANK.NS''),
                        make_row ''ICICI Bank'' (sample_quotes ''ICICIBANK.NS'')]),
        [''HDFCBANK.NS'', ''ICICIBANK.NS''])
   \<and> make_row ''ICICI Bank'' Map.empty
        = \<lparr> Company = ''ICICI Bank'', Current_Price = 0, High_52_Week = 0, Low_52_Week = 0,
            Trend = Flat, Market_Cap_Cr = 0, PE_Ratio = None, ROE_Percent = 0 \<rparr>
   \<and> sample_response ''PNB.NS'' = Inl (ProviderError ''connection failed'')
   \<and> fetch_data (recorded sample_response)
       ([(''HDFC Bank'', ''HDFCBANK.NS'')] @ (''Punjab National Bank'', ''PNB.NS'')
          # [(''ICICI Bank'', ''ICICIBANK.NS'')]) []
     = (Inl (ProviderError ''connection failed''), [''HDFCBANK.NS'', ''PNB.NS''])"
proof -
  have all2: "\<forall>(name, symbol) \<in> set [(''HDFC Bank'', ''HDFCBANK.NS''), (''ICICI Bank'', ''ICICIBANK.NS'')].
      sample_response symbol = Inr (sample_quotes symbol)"
    by (simp add: sample_response_values(1,2))
  have all1: "(\<forall>(name, symbol) \<in> set [(''HDFC Bank'', ''HDFCBANK.NS'')].
      sample_response symbol = Inr (sample_quotes symbol))
      \<and> sample_response ''PNB.NS'' = Inl (ProviderError ''connection failed'')"
    by (simp add: sample_response_values(1,3))
  note inst = fetch_data_missing_data [where tickers = "[(''HDFC Bank'', ''HDFCBANK.NS''), (''ICICI Bank'', ''ICICIBANK.NS'')]"
      and resp = sample_response and quote = sample_quotes and calls = "[]"
      and company = "''ICICI Bank''" and before = "[(''HDFC Bank'', ''HDFCBANK.NS'')]"
      and name = "''Punjab National Bank''" and symbol = "''PNB.NS''"
      and e = "ProviderError ''connection failed''" and rest = "[(''ICICI Bank'', ''ICICIBANK.NS'')]"]
  have a: "fetch_data (recorded sample_response)
       [(''HDFC Bank'', ''HDFCBANK.NS''), (''ICICI Bank'', ''ICICIBANK.NS'')] []
     = (Inr (DataFrame [make_row ''HDFC Bank'' (sample_quotes ''HDFCBANK.NS''),
                        make_row ''ICICI Bank'' (sample_quotes ''ICICIBANK.NS'')]),
        [''HDFCBANK.NS'', ''ICICIBANK.NS''])"
    using inst [THEN conjunct1, THEN mp, OF all2] by simp
  have b: "make_row ''ICICI Bank'' Map.empty
        = \<lparr> Company = ''ICICI Bank'', Current_Price = 0, High_52_Week = 0, Low_52_Week = 0,
            Trend = Flat, Market_Cap_Cr = 0, PE_Ratio = None, ROE_Percent = 0 \<rparr>"
    using inst [THEN conjunct2, THEN conjunct1] .
  have c: "fetch_data (recorded sample_response)
       ([(''HDFC Bank'', ''HDFCBANK.NS'')] @ (''Punjab National Bank'', ''PNB.NS'')
          # [(''ICICI Bank'', ''ICICIBANK.NS'')]) []
     = (Inl (ProviderError ''connection failed''), [''HDFCBANK.NS'', ''PNB.NS''])"
    using inst [THEN conjunct2, THEN conjunct2, THEN mp, OF all1] by simp
  show ?thesis
    using a b c sample_response_values by (intro conjI)
qed

end
